theory Spec2Isabelle
  imports Complex_Main "HOL-Library.AList"
begin

text \<open>
  A shallow embedding of \<open>src/lib/mongoosePagination.ts\<close>: the three filter builders
  (\<open>createDateFilter\<close>, \<open>processFilters\<close>, \<open>createGlobalSearchQuery\<close>) and the exported
  \<open>mongoosePagination\<close>, which merges their results into one filter, builds the
  aggregation request, sends it and assembles the page. Two things lie outside the
  library and are parameters of the model: the storage (\<open>Model.aggregate\<close>, a function
  from the request to a rejection or a list of result objects) and the host's parsing of
  date strings. A rejected promise is an \<open>Inl\<close>, a resolved one an \<open>Inr\<close>.
\<close>

section \<open>JavaScript numbers\<close>

text \<open>
  A JavaScript \<open>number\<close> is NaN, one of the two infinities, or a finite value. Finite values
  are kept as exact reals: the model is exact wherever the program's values are integers
  below \<open>2^53\<close> (page numbers, page sizes, counts, millisecond time stamps), and it does
  not round. The two zeros are identified (they are equal under \<open>==\<close> and \<open>===\<close>).
\<close>

datatype jsnum = NaN | PInf | NInf | Fin real

fun js_neg :: "jsnum \<Rightarrow> jsnum" where
  "js_neg NaN = NaN"
| "js_neg PInf = NInf"
| "js_neg NInf = PInf"
| "js_neg (Fin a) = Fin (- a)"

fun js_add :: "jsnum \<Rightarrow> jsnum \<Rightarrow> jsnum" where
  "js_add (Fin a) (Fin b) = Fin (a + b)"
| "js_add NaN _ = NaN"
| "js_add _ NaN = NaN"
| "js_add PInf NInf = NaN"
| "js_add NInf PInf = NaN"
| "js_add PInf _ = PInf"
| "js_add _ PInf = PInf"
| "js_add NInf _ = NInf"
| "js_add _ NInf = NInf"

definition js_sub :: "jsnum \<Rightarrow> jsnum \<Rightarrow> jsnum" where
  "js_sub a b = js_add a (js_neg b)"

definition signed_inf :: "real \<Rightarrow> jsnum" where
  "signed_inf s = (if s = 0 then NaN else if 0 < s then PInf else NInf)"

fun js_sign :: "jsnum \<Rightarrow> real" where
  "js_sign NaN = 0"
| "js_sign PInf = 1"
| "js_sign NInf = - 1"
| "js_sign (Fin a) = sgn a"

fun js_mul :: "jsnum \<Rightarrow> jsnum \<Rightarrow> jsnum" where
  "js_mul (Fin a) (Fin b) = Fin (a * b)"
| "js_mul NaN _ = NaN"
| "js_mul _ NaN = NaN"
| "js_mul a b = signed_inf (js_sign a * js_sign b)"

fun js_div :: "jsnum \<Rightarrow> jsnum \<Rightarrow> jsnum" where
  "js_div (Fin a) (Fin b) = (if b = 0 then signed_inf (sgn a) else Fin (a / b))"
| "js_div NaN _ = NaN"
| "js_div _ NaN = NaN"
| "js_div (Fin a) _ = Fin 0"
| "js_div a (Fin b) = (if b = 0 then a else signed_inf (js_sign a * sgn b))"
| "js_div _ _ = NaN"

text \<open>The relational operator \<open>a > b\<close>: false as soon as one side is NaN.\<close>

fun js_gt :: "jsnum \<Rightarrow> jsnum \<Rightarrow> bool" where
  "js_gt (Fin a) (Fin b) = (b < a)"
| "js_gt NaN _ = False"
| "js_gt _ NaN = False"
| "js_gt PInf b = (b \<noteq> PInf)"
| "js_gt _ PInf = False"
| "js_gt NInf _ = False"
| "js_gt _ NInf = True"

text \<open>\<open>Math.ceil\<close>.\<close>

fun js_ceil :: "jsnum \<Rightarrow> jsnum" where
  "js_ceil (Fin a) = Fin (of_int \<lceil>a\<rceil>)"
| "js_ceil x = x"

text \<open>The global \<open>isNaN\<close> on a number.\<close>

definition js_isNaN :: "jsnum \<Rightarrow> bool" where
  "js_isNaN x = (x = NaN)"

section \<open>\<open>Number(string)\<close>\<close>

text \<open>
  The conversion of a string to a number (ECMAScript StringToNumber): surrounding white
  space is dropped, the empty string is \<open>0\<close>, and the rest must be one whole numeric
  literal, otherwise the result is NaN. Strings are sequences of code units below 256.
\<close>

definition StrWhiteSpaceChar :: "char \<Rightarrow> bool" where
  "StrWhiteSpaceChar c = ((of_char c :: nat) \<in> {9, 10, 11, 12, 13, 32, 160})"

definition trim :: "string \<Rightarrow> string" where
  "trim s = rev (dropWhile StrWhiteSpaceChar (rev (dropWhile StrWhiteSpaceChar s)))"

definition DecimalDigit :: "char \<Rightarrow> bool" where
  "DecimalDigit c = (48 \<le> (of_char c :: nat) \<and> (of_char c :: nat) \<le> 57)"

definition digit_value :: "char \<Rightarrow> nat" where
  "digit_value c =
     (let n = of_char c in
      if 48 \<le> n \<and> n \<le> 57 then n - 48
      else if 97 \<le> n \<and> n \<le> 102 then n - 87
      else if 65 \<le> n \<and> n \<le> 70 then n - 55
      else 0)"

definition radix_digit :: "nat \<Rightarrow> char \<Rightarrow> bool" where
  "radix_digit b c =
     (let n = (of_char c :: nat) in
      ((48 \<le> n \<and> n \<le> 57) \<or> (97 \<le> n \<and> n \<le> 102) \<or> (65 \<le> n \<and> n \<le> 70))
      \<and> digit_value c < b)"

definition digits_value :: "nat \<Rightarrow> string \<Rightarrow> nat" where
  "digits_value b ds = foldl (\<lambda>acc c. acc * b + digit_value c) 0 ds"

definition pow10 :: "int \<Rightarrow> real" where
  "pow10 e = (if 0 \<le> e then 10 ^ nat e else 1 / 10 ^ nat (- e))"

text \<open>\<open>0x\<close>, \<open>0o\<close> and \<open>0b\<close> literals: a prefix and at least one digit of the radix.\<close>

definition NonDecimalIntegerLiteral :: "string \<Rightarrow> nat option" where
  "NonDecimalIntegerLiteral s =
     (case s of
        z # p # ds \<Rightarrow>
          (let b = (if p = CHR ''x'' \<or> p = CHR ''X'' then 16
                    else if p = CHR ''o'' \<or> p = CHR ''O'' then 8
                    else if p = CHR ''b'' \<or> p = CHR ''B'' then 2 else (0::nat))
           in if z = CHR ''0'' \<and> b \<noteq> 0 \<and> ds \<noteq> [] \<and> list_all (radix_digit b) ds
              then Some (digits_value b ds) else None)
      | _ \<Rightarrow> None)"

text \<open>The exponent part, if any: \<open>None\<close> when what follows the mantissa is not one.\<close>

definition ExponentPart :: "string \<Rightarrow> int option" where
  "ExponentPart r =
     (case r of
        [] \<Rightarrow> Some 0
      | e # r1 \<Rightarrow>
          if e = CHR ''e'' \<or> e = CHR ''E'' then
            (let neg = (case r1 of c # _ \<Rightarrow> c = CHR ''-'' | [] \<Rightarrow> False);
                 ds = (case r1 of c # r2 \<Rightarrow> if c = CHR ''+'' \<or> c = CHR ''-'' then r2 else r1
                       | [] \<Rightarrow> [])
             in if ds \<noteq> [] \<and> list_all DecimalDigit ds
                then Some (if neg then - int (digits_value 10 ds) else int (digits_value 10 ds))
                else None)
          else None)"

definition StrUnsignedDecimalLiteral :: "string \<Rightarrow> jsnum" where
  "StrUnsignedDecimalLiteral s =
     (if s = ''Infinity'' then PInf
      else
        let ip = takeWhile DecimalDigit s;
            r1 = dropWhile DecimalDigit s;
            dot = (case r1 of c # _ \<Rightarrow> c = CHR ''.'' | [] \<Rightarrow> False);
            fp = (if dot then takeWhile DecimalDigit (tl r1) else []);
            r2 = (if dot then dropWhile DecimalDigit (tl r1) else r1)
        in if ip = [] \<and> fp = [] then NaN
           else (case ExponentPart r2 of
                   None \<Rightarrow> NaN
                 | Some e \<Rightarrow>
                     Fin (real (digits_value 10 (ip @ fp)) * pow10 (e - int (length fp)))))"

definition js_Number :: "string \<Rightarrow> jsnum" where
  "js_Number s =
     (let t = trim s in
      if t = [] then Fin 0
      else (case NonDecimalIntegerLiteral t of
              Some n \<Rightarrow> Fin (real n)
            | None \<Rightarrow>
                (case t of
                   c # r \<Rightarrow>
                     if c = CHR ''-'' then js_neg (StrUnsignedDecimalLiteral r)
                     else if c = CHR ''+'' then StrUnsignedDecimalLiteral r
                     else StrUnsignedDecimalLiteral t
                 | [] \<Rightarrow> Fin 0)))"

section \<open>Dates\<close>

text \<open>
  A \<open>Date\<close> object is its time value: milliseconds since the epoch, or NaN for an invalid
  date. Parsing a date string is left to the host (\<open>new Date(string)\<close> is
  implementation-defined outside the ISO format), so it is a parameter \<open>parse\<close> of the
  model. \<open>new Date(number)\<close> clips the number to the range of valid time values.
\<close>

datatype jsdate = Date (getTime: jsnum)

fun TimeClip :: "jsnum \<Rightarrow> jsnum" where
  "TimeClip (Fin t) =
     (if 8640000000000000 < \<bar>t\<bar> then NaN
      else Fin (if 0 \<le> t then of_int \<lfloor>t\<rfloor> else of_int \<lceil>t\<rceil>))"
| "TimeClip _ = NaN"

definition new_Date :: "jsnum \<Rightarrow> jsdate" where
  "new_Date t = Date (TimeClip t)"

section \<open>Filter objects\<close>

text \<open>
  An object is the list of its entries in insertion order; assigning to a key that exists
  replaces the value in place. The values of a filter object are the conditions the
  library builds, or values of the caller's own that the library never inspects.
\<close>

datatype 'a fval =
    Opaque 'a
  | BoolEq bool
  | NumEq jsnum
  | RegexMatch string string
  | DateOps "(string \<times> jsdate) list"
  | OrOf "(string \<times> 'a fval) list list"

type_synonym 'a filter_query = "(string \<times> 'a fval) list"

text \<open>Object spread \<open>{...a, ...b}\<close>: the entries of \<open>b\<close> are assigned onto \<open>a\<close>, in order.\<close>

definition spread :: "('k \<times> 'v) list \<Rightarrow> ('k \<times> 'v) list \<Rightarrow> ('k \<times> 'v) list" where
  "spread a b = fold (\<lambda>(k, v). AList.update k v) b a"

text \<open>Truthiness of an optional string: \<open>undefined\<close> and the empty string are falsy.\<close>

fun truthy :: "string option \<Rightarrow> bool" where
  "truthy None = False"
| "truthy (Some s) = (s \<noteq> [])"

subsection \<open>createDateFilter\<close>

text \<open>\<open>dateFilter.createdAt\<close>, spread into an object literal: nothing when it is absent.\<close>

definition createdAt_of :: "'a filter_query \<Rightarrow> (string \<times> jsdate) list" where
  "createdAt_of dateFilter =
     (case map_of dateFilter ''createdAt'' of Some (DateOps ops) \<Rightarrow> ops | _ \<Rightarrow> [])"

definition createDateFilter ::
  "(string \<Rightarrow> jsnum) \<Rightarrow> string option \<Rightarrow> string option \<Rightarrow> bool \<Rightarrow> 'a filter_query" where
  "createDateFilter parse startDate endDate searchBetweenDates =
     (let dateFilter = [] in
      if \<not> truthy startDate \<and> \<not> truthy endDate then dateFilter
      else
        let start = (case startDate of
                       Some s \<Rightarrow> if s \<noteq> [] then Some (Date (parse s)) else None
                     | None \<Rightarrow> None);
            end = (case endDate of
                     Some s \<Rightarrow> if s \<noteq> [] then Some (Date (parse s)) else None
                   | None \<Rightarrow> None);
            op_start = (if searchBetweenDates then ''$gt'' else ''$gte'');
            op_end = (if searchBetweenDates then ''$lt'' else ''$lte'');
            dateFilter1 =
              (case end of
                 Some e \<Rightarrow>
                   let adjustedEndDate =
                         (if searchBetweenDates then e
                          else new_Date (js_add (getTime e) (Fin (24 * 60 * 60 * 1000))))
                   in AList.update ''createdAt''
                        (DateOps (AList.update op_end adjustedEndDate (createdAt_of dateFilter)))
                        dateFilter
               | None \<Rightarrow> dateFilter);
            dateFilter2 =
              (case start of
                 Some s \<Rightarrow>
                   AList.update ''createdAt''
                     (DateOps (AList.update op_start s (createdAt_of dateFilter1)))
                     dateFilter1
               | None \<Rightarrow> dateFilter1)
        in dateFilter2)"

subsection \<open>processFilters\<close>

text \<open>
  The \<open>filters\<close> argument is an optional object whose values are strings or
  \<open>undefined\<close>; \<open>Object.entries\<close> lists its entries.
\<close>

type_synonym field_filters = "(string \<times> string option) list"

definition processFilters :: "field_filters option \<Rightarrow> 'a filter_query" where
  "processFilters filters =
     (case filters of
        None \<Rightarrow> []
      | Some fs \<Rightarrow>
          fold (\<lambda>(key, val) query.
                  case val of
                    None \<Rightarrow> query
                  | Some v \<Rightarrow>
                      if v = ''true'' \<or> v = ''false'' then
                        AList.update key (BoolEq (v = ''true'')) query
                      else if \<not> js_isNaN (js_Number v) then
                        AList.update key (NumEq (js_Number v)) query
                      else
                        AList.update key (RegexMatch v ''i'') query)
               fs [])"

subsection \<open>createGlobalSearchQuery\<close>

definition global_condition :: "string \<times> string option \<Rightarrow> 'a filter_query option" where
  "global_condition e =
     (case e of
        (key, Some v) \<Rightarrow> if v \<noteq> [] then Some [(key, RegexMatch v ''i'')] else None
      | (key, None) \<Rightarrow> None)"

definition createGlobalSearchQuery :: "field_filters option \<Rightarrow> 'a filter_query" where
  "createGlobalSearchQuery filters =
     (case filters of
        None \<Rightarrow> []
      | Some fs \<Rightarrow>
          let globalConditions = List.map_filter global_condition fs
          in if length globalConditions \<noteq> 0 then [(''$or'', OrOf globalConditions)] else [])"

section \<open>Aggregation requests\<close>

text \<open>
  The stages the library itself writes, and the caller's extra stages, which it passes on
  without looking at them (\<open>Extra\<close>). The sub-pipelines of a facet have their own
  stage type.
\<close>

datatype substage =
    Count string
  | Sort "(string \<times> int) list"
  | Skip jsnum
  | Limit jsnum
  | Project "(string \<times> bool) list"

datatype ('a, 's) stage =
    Match "'a filter_query"
  | Extra 's
  | Facet "(string \<times> substage list) list"
  | Unwind string bool

text \<open>
  The \<open>options\<close> argument. Every property but \<open>Model\<close> is optional; \<open>Model\<close>, the
  storage handle, is a separate argument of the model below.
\<close>

record ('a, 's) PaginationOptions =
  opt_filter :: "'a filter_query option"
  opt_max :: "jsnum option"
  opt_page :: "jsnum option"
  opt_sort :: "bool option"
  opt_pipeline :: "'s list option"
  opt_extract :: "(string \<times> bool) list option"
  opt_startDate :: "string option"
  opt_endDate :: "string option"
  opt_searchBetweenDates :: "bool option"
  opt_filters :: "field_filters option"
  opt_globalSearch :: "bool option"

text \<open>What \<open>Model.aggregate\<close> resolves to: \<open>{ metadata?: { total }, data }\<close> objects.\<close>

record 'd facet_result =
  res_metadata :: "jsnum option"
  res_data :: "'d list"

record page_metadata =
  md_total :: jsnum
  md_page :: jsnum
  md_max :: jsnum
  md_next :: bool
  md_previous :: bool
  md_totalPages :: jsnum

record 'd PaginationResult =
  metadata :: page_metadata
  data :: "'d list"

text \<open>
  The ways a call can fail. \<open>ErrorInvalidPage\<close> and \<open>ErrorInvalidMax\<close> are the error names
  the test-suite expects for a bad \<open>page\<close> and a bad \<open>max\<close>; \<open>QueryFailure\<close> is a
  rejection of \<open>Model.aggregate\<close>, passed on as it is.
\<close>

datatype 'e pagination_error = ErrorInvalidPage | ErrorInvalidMax | QueryFailure 'e

type_synonym ('a, 's, 'd, 'e) aggregate = "('a, 's) stage list \<Rightarrow> 'e + 'd facet_result list"

text \<open>A destructuring default: \<open>x = d\<close> takes \<open>d\<close> when the property is \<open>undefined\<close>.\<close>

fun default_to :: "'a \<Rightarrow> 'a option \<Rightarrow> 'a" where
  "default_to d None = d"
| "default_to d (Some x) = x"

definition max_of :: "('a, 's) PaginationOptions \<Rightarrow> jsnum" where
  "max_of options = default_to (Fin 10) (opt_max options)"

definition page_of :: "('a, 's) PaginationOptions \<Rightarrow> jsnum" where
  "page_of options = default_to (Fin 1) (opt_page options)"

definition skip_of :: "('a, 's) PaginationOptions \<Rightarrow> jsnum" where
  "skip_of options = js_mul (js_sub (page_of options) (Fin 1)) (max_of options)"

definition combinedFilter ::
  "(string \<Rightarrow> jsnum) \<Rightarrow> ('a, 's) PaginationOptions \<Rightarrow> 'a filter_query" where
  "combinedFilter parse options =
     (let filter = default_to [] (opt_filter options);
          searchBetweenDates = default_to False (opt_searchBetweenDates options);
          globalSearch = default_to False (opt_globalSearch options)
      in spread
           (spread (spread [] filter)
              (createDateFilter parse (opt_startDate options) (opt_endDate options)
                 searchBetweenDates))
           (if globalSearch then createGlobalSearchQuery (opt_filters options)
            else processFilters (opt_filters options)))"

definition aggregationPipeline ::
  "(string \<Rightarrow> jsnum) \<Rightarrow> ('a, 's) PaginationOptions \<Rightarrow> ('a, 's) stage list" where
  "aggregationPipeline parse options =
     (let max = max_of options;
          sort = default_to True (opt_sort options);
          pipeline = default_to [] (opt_pipeline options);
          extract = default_to [] (opt_extract options);
          skip = skip_of options
      in [Match (combinedFilter parse options)]
         @ map Extra pipeline
         @ [Facet
              [(''metadata'', [Count ''total'']),
               (''data'',
                  (if sort then [Sort [(''createdAt'', - 1)]] else [])
                  @ [Skip skip, Limit max]
                  @ (if length extract > 0 then [Project extract] else []))],
            Unwind ''$metadata'' True])"

text \<open>
  The exported function. The first component of the result is the list of requests sent to
  the storage, in order; the second is the outcome of the promise: \<open>Inl\<close> a rejection,
  \<open>Inr\<close> the resolved value.
\<close>

definition mongoosePagination ::
  "('a, 's, 'd, 'e) aggregate \<Rightarrow> (string \<Rightarrow> jsnum) \<Rightarrow> ('a, 's) PaginationOptions
     \<Rightarrow> ('a, 's) stage list list \<times> ('e pagination_error + 'd PaginationResult)" where
  "mongoosePagination Model_aggregate parse options =
     (let max = max_of options;
          page = page_of options;
          skip = skip_of options;
          aggregationPipeline = aggregationPipeline parse options
      in ([aggregationPipeline],
          case Model_aggregate aggregationPipeline of
            Inl e \<Rightarrow> Inl (QueryFailure e)
          | Inr rs \<Rightarrow>
              let result = (case rs of [] \<Rightarrow> None | r # _ \<Rightarrow> Some r);
                  total = (case result of
                             None \<Rightarrow> Fin 0
                           | Some r \<Rightarrow> default_to (Fin 0) (res_metadata r))
              in Inr \<lparr>metadata =
                        \<lparr>md_total = total,
                         md_page = page,
                         md_max = max,
                         md_next = js_gt total (js_add skip max),
                         md_previous = js_gt page (Fin 1),
                         md_totalPages = js_ceil (js_div total max)\<rparr>,
                      data = (case result of None \<Rightarrow> [] | Some r \<Rightarrow> res_data r)\<rparr>))"

section \<open>The storage's side of the contract\<close>

text \<open>The data sub-pipeline of the first facet stage of a request, and its limit.\<close>

fun facet_data :: "('a, 's) stage list \<Rightarrow> substage list option" where
  "facet_data [] = None"
| "facet_data (Facet subs # rest) = map_of subs ''data''"
| "facet_data (_ # rest) = facet_data rest"

fun sub_limit :: "substage list \<Rightarrow> jsnum option" where
  "sub_limit [] = None"
| "sub_limit (Limit n # rest) = Some n"
| "sub_limit (_ # rest) = sub_limit rest"

fun sub_skip :: "substage list \<Rightarrow> jsnum option" where
  "sub_skip [] = None"
| "sub_skip (Skip n # rest) = Some n"
| "sub_skip (_ # rest) = sub_skip rest"

definition request_limit :: "('a, 's) stage list \<Rightarrow> jsnum option" where
  "request_limit pl = (case facet_data pl of None \<Rightarrow> None | Some sub \<Rightarrow> sub_limit sub)"

definition request_skip :: "('a, 's) stage list \<Rightarrow> jsnum option" where
  "request_skip pl = (case facet_data pl of None \<Rightarrow> None | Some sub \<Rightarrow> sub_skip sub)"


text \<open>
  A small storage for trying the library out: it answers from a fixed list of documents
  that match the request, in the order asked for, honours \<open>$skip\<close> and \<open>$limit\<close> of the
  facet's data sub-pipeline, counts all documents, leaves the count out when there is none
  (as the unwind stage with \<open>preserveNullAndEmptyArrays\<close> does), and rejects a skip that is
  not a natural number and a limit that is not a positive one.
\<close>

definition as_nat :: "jsnum \<Rightarrow> nat option" where
  "as_nat x = (case x of Fin a \<Rightarrow> if 0 \<le> a \<and> a = of_int \<lfloor>a\<rfloor> then Some (nat \<lfloor>a\<rfloor>) else None
               | _ \<Rightarrow> None)"

definition list_storage :: "'d list \<Rightarrow> ('a, 's, 'd, string) aggregate" where
  "list_storage docs pl =
     (case (request_skip pl, request_limit pl) of
        (Some s, Some l) \<Rightarrow>
          (case (as_nat s, as_nat l) of
             (Some i, Some n) \<Rightarrow>
               if n = 0 then Inl ''the limit must be positive''
               else Inr [\<lparr>res_metadata = (if docs = [] then None else Some (Fin (real (length docs)))),
                          res_data = take n (drop i docs)\<rparr>]
           | _ \<Rightarrow> Inl ''invalid argument to $skip or $limit'')
      | _ \<Rightarrow> Inl ''unsupported request'')"

text \<open>The call \<open>mongoosePagination({ Model })\<close>: every optional property left out.\<close>

definition no_options :: "('a, 's) PaginationOptions" where
  "no_options =
     \<lparr>opt_filter = None, opt_max = None, opt_page = None, opt_sort = None,
      opt_pipeline = None, opt_extract = None, opt_startDate = None, opt_endDate = None,
      opt_searchBetweenDates = None, opt_filters = None, opt_globalSearch = None\<rparr>"

text \<open>A date parser that knows two ISO dates (midnight UTC), for trying the builders out.\<close>

definition iso_dates :: "string \<Rightarrow> jsnum" where
  "iso_dates s =
     (if s = ''2024-01-15'' then Fin 1705276800000
      else if s = ''2024-01-20'' then Fin 1705708800000
      else NaN)"

text \<open>The thirteen documents of the test-suite, by number.\<close>

definition thirteen_tasks :: "nat list" where
  "thirteen_tasks = [1, 2, 3, 4, 5, 6, 7, 8, 9, 10, 11, 12, 13]"

section \<open>Objects as entry lists\<close>

lemma map_of_fold_update:
  "map_of (fold (\<lambda>(k, v). AList.update k v) b a) = map_of a ++ map_of (rev b)"
proof (induction b arbitrary: a)
  case Nil
  show ?case by simp
next
  case (Cons p b)
  obtain k v where p: "p = (k, v)" by (cases p)
  have "map_of (fold (\<lambda>(k, v). AList.update k v) b (AList.update k v a))
        = map_of (AList.update k v a) ++ map_of (rev b)"
    by (rule Cons.IH)
  also have "\<dots> = map_of a ++ map_of (rev b @ [(k, v)])"
    by (rule ext) (simp add: update_conv' map_add_def split: option.splits)
  finally show ?case by (simp add: p)
qed

lemma map_of_rev_distinct:
  "distinct (map fst xs) \<Longrightarrow> map_of (rev xs) = map_of xs"
proof (induction xs)
  case Nil
  show ?case by simp
next
  case (Cons p xs)
  obtain k v where p: "p = (k, v)" by (cases p)
  from Cons.prems have none: "map_of xs k = None"
    by (simp add: p map_of_eq_None_iff)
  from Cons have IH: "map_of (rev xs) = map_of xs" by simp
  show ?case
    by (rule ext) (auto simp: p IH none map_add_def split: option.splits)
qed

lemma map_of_spread:
  "distinct (map fst b) \<Longrightarrow> map_of (spread a b) = map_of a ++ map_of b"
  unfolding spread_def by (simp add: map_of_fold_update map_of_rev_distinct)

lemma distinct_spread:
  "distinct (map fst a) \<Longrightarrow> distinct (map fst (spread a b))"
  unfolding spread_def
  by (induction b arbitrary: a) (auto simp: distinct_update)

lemma fold_assign_lookup:
  assumes step: "\<And>key val q. map_of (step (key, val) q)
                   = (case g key val of None \<Rightarrow> map_of q | Some c \<Rightarrow> (map_of q)(key \<mapsto> c))"
  shows "distinct (map fst fs) \<Longrightarrow> (k, x) \<in> set fs \<Longrightarrow>
           map_of (fold step fs q0) k = (case g k x of None \<Rightarrow> map_of q0 k | Some c \<Rightarrow> Some c)"
    and "k \<notin> fst ` set fs \<Longrightarrow> map_of (fold step fs q0) k = map_of q0 k"
proof -
  have other: "k \<notin> fst ` set fs \<Longrightarrow> map_of (fold step fs q0) k = map_of q0 k" for fs q0
  proof (induction fs arbitrary: q0)
    case Nil
    show ?case by simp
  next
    case (Cons p fs)
    obtain key val where p: "p = (key, val)" by (cases p)
    from Cons.prems have "k \<noteq> key" and "k \<notin> fst ` set fs" by (auto simp: p)
    then show ?case by (simp add: p Cons.IH step split: option.splits)
  qed
  show "k \<notin> fst ` set fs \<Longrightarrow> map_of (fold step fs q0) k = map_of q0 k" by (rule other)
  show "distinct (map fst fs) \<Longrightarrow> (k, x) \<in> set fs \<Longrightarrow>
           map_of (fold step fs q0) k = (case g k x of None \<Rightarrow> map_of q0 k | Some c \<Rightarrow> Some c)"
  proof (induction fs arbitrary: q0)
    case Nil
    then show ?case by simp
  next
    case (Cons p fs)
    obtain key val where p: "p = (key, val)" by (cases p)
    show ?case
    proof (cases "(k, x) \<in> set fs")
      case True
      with Cons.prems have "k \<noteq> key" by (force simp: p)
      with True Cons.prems show ?thesis
        by (simp add: p Cons.IH step split: option.splits)
    next
      case False
      with Cons.prems have kx: "key = k" "val = x" and "k \<notin> fst ` set fs" by (auto simp: p)
      then show ?thesis by (simp add: p other step split: option.splits)
    qed
  qed
qed

section \<open>The field filter processor\<close>

lemma processFilters_lookup:
  fixes fs :: field_filters
  assumes "distinct (map fst fs)" and "(k, x) \<in> set fs"
  shows "map_of (processFilters (Some fs) :: 'a filter_query) k =
           (case x of
              None \<Rightarrow> None
            | Some v \<Rightarrow>
                Some (if v = ''true'' \<or> v = ''false'' then BoolEq (v = ''true'')
                      else if \<not> js_isNaN (js_Number v) then NumEq (js_Number v)
                      else RegexMatch v ''i''))"
proof -
  let ?g = "\<lambda>(key::string) val. case val of None \<Rightarrow> None
            | Some v \<Rightarrow> Some (if v = ''true'' \<or> v = ''false'' then BoolEq (v = ''true'')
                      else if \<not> js_isNaN (js_Number v) then NumEq (js_Number v)
                      else (RegexMatch v ''i'' :: 'a fval))"
  have "map_of (processFilters (Some fs) :: 'a filter_query) k
        = (case ?g k x of None \<Rightarrow> map_of [] k | Some c \<Rightarrow> Some c)"
    unfolding processFilters_def option.case
    by (rule fold_assign_lookup(1) [where g = ?g, OF _ assms])
       (auto simp: update_conv' split: option.splits)
  then show ?thesis by (simp split: option.splits)
qed

lemma processFilters_absent:
  fixes fs :: field_filters
  assumes "k \<notin> fst ` set fs"
  shows "map_of (processFilters (Some fs) :: 'a filter_query) k = None"
proof -
  let ?g = "\<lambda>(key::string) val. case val of None \<Rightarrow> None
            | Some v \<Rightarrow> Some (if v = ''true'' \<or> v = ''false'' then BoolEq (v = ''true'')
                      else if \<not> js_isNaN (js_Number v) then NumEq (js_Number v)
                      else (RegexMatch v ''i'' :: 'a fval))"
  have "map_of (processFilters (Some fs) :: 'a filter_query) k = map_of [] k"
    unfolding processFilters_def option.case
    by (rule fold_assign_lookup(2) [where g = ?g, OF _ assms])
       (auto simp: update_conv' split: option.splits)
  then show ?thesis by simp
qed

lemma trim_blank: "list_all StrWhiteSpaceChar v \<Longrightarrow> trim v = []"
proof -
  assume "list_all StrWhiteSpaceChar v"
  then have blank: "dropWhile StrWhiteSpaceChar v = []"
    by (simp add: list_all_iff)
  show ?thesis unfolding trim_def blank by simp
qed

lemma js_Number_blank: "list_all StrWhiteSpaceChar v \<Longrightarrow> js_Number v = Fin 0"
  by (simp add: js_Number_def trim_blank)

lemma blank_not_literal:
  "list_all StrWhiteSpaceChar v \<Longrightarrow> v \<noteq> ''true'' \<and> v \<noteq> ''false''"
  by (auto simp: StrWhiteSpaceChar_def)

lemma js_Number_high: "js_Number ''high'' = NaN"
  by code_simp

lemma js_Number_12: "js_Number ''12'' = Fin 12"
  by code_simp

text \<open>
  Claim C5. In non-global mode every entry of \<open>filters\<close> with a string value yields one
  condition on its field, chosen in this order: the literal strings \<open>true\<close> and \<open>false\<close>
  give a boolean equality; otherwise a value that \<open>Number\<close> converts to a number (not NaN)
  gives a numeric equality; otherwise the value becomes a pattern match with option \<open>i\<close>
  (case-insensitive).
\<close>

theorem processFilters_coercion_order:
  fixes fs :: field_filters
  assumes "distinct (map fst fs)" and "(key, Some v) \<in> set fs"
  shows "map_of (processFilters (Some fs) :: 'a filter_query) key =
           Some (if v = ''true'' then BoolEq True
                 else if v = ''false'' then BoolEq False
                 else if js_Number v \<noteq> NaN then NumEq (js_Number v)
                 else RegexMatch v ''i'')"
  using processFilters_lookup [OF assms, where ?'a = 'a]
  by (simp add: js_isNaN_def)

theorem processFilters_coercion_order_witness:
  "distinct (map fst [(''completed'', Some ''false''), (''priority'', Some ''high''),
                      (''rank'', Some ''12'')])
   \<and> (''completed'', Some ''false'') \<in> set [(''completed'', Some ''false''), (''priority'', Some ''high''),
                      (''rank'', Some ''12'')]
   \<and> map_of (processFilters (Some [(''completed'', Some ''false''), (''priority'', Some ''high''),
                      (''rank'', Some ''12'')]) :: unit filter_query) ''completed'' = Some (BoolEq False)
   \<and> map_of (processFilters (Some [(''completed'', Some ''false''), (''priority'', Some ''high''),
                      (''rank'', Some ''12'')]) :: unit filter_query) ''priority''
       = Some (RegexMatch ''high'' ''i'')
   \<and> map_of (processFilters (Some [(''completed'', Some ''false''), (''priority'', Some ''high''),
                      (''rank'', Some ''12'')]) :: unit filter_query) ''rank'' = Some (NumEq (Fin 12))"
  using processFilters_coercion_order
          [of "[(''completed'', Some ''false''), (''priority'', Some ''high''), (''rank'', Some ''12'')]"
              "''completed''" "''false''", where ?'a = unit]
        processFilters_coercion_order
          [of "[(''completed'', Some ''false''), (''priority'', Some ''high''), (''rank'', Some ''12'')]"
              "''priority''" "''high''", where ?'a = unit]
        processFilters_coercion_order
          [of "[(''completed'', Some ''false''), (''priority'', Some ''high''), (''rank'', Some ''12'')]"
              "''rank''" "''12''", where ?'a = unit]
  by (simp add: js_Number_high js_Number_12)

text \<open>
  Claim C10. In non-global mode an entry whose value is the empty string, or white space
  only, becomes the numeric equality \<open>field == 0\<close>; an entry whose value is \<open>undefined\<close>
  adds no condition.
\<close>

theorem processFilters_blank_value:
  fixes fs :: field_filters
  assumes "distinct (map fst fs)"
  shows "((key, Some v) \<in> set fs \<and> list_all StrWhiteSpaceChar v
            \<longrightarrow> map_of (processFilters (Some fs) :: 'a filter_query) key = Some (NumEq (Fin 0)))
         \<and> ((key', None) \<in> set fs
            \<longrightarrow> map_of (processFilters (Some fs) :: 'a filter_query) key' = None)"
proof (intro conjI impI)
  assume a: "(key, Some v) \<in> set fs \<and> list_all StrWhiteSpaceChar v"
  then have "v \<noteq> ''true''" "v \<noteq> ''false''" "js_Number v = Fin 0"
    using blank_not_literal js_Number_blank by blast+
  with processFilters_lookup [OF assms, of key "Some v", where ?'a = 'a] a
  show "map_of (processFilters (Some fs) :: 'a filter_query) key = Some (NumEq (Fin 0))"
    by (simp add: js_isNaN_def)
next
  assume "(key', None) \<in> set fs"
  from processFilters_lookup [OF assms this, where ?'a = 'a]
  show "map_of (processFilters (Some fs) :: 'a filter_query) key' = None" by simp
qed

theorem processFilters_blank_value_witness:
  "distinct (map fst [(''title'', Some ''''), (''rank'', Some ''  ''), (''tag'', None)])
   \<and> list_all StrWhiteSpaceChar '''' \<and> list_all StrWhiteSpaceChar ''  ''
   \<and> map_of (processFilters (Some [(''title'', Some ''''), (''rank'', Some ''  ''), (''tag'', None)])
               :: unit filter_query) ''title'' = Some (NumEq (Fin 0))
   \<and> map_of (processFilters (Some [(''title'', Some ''''), (''rank'', Some ''  ''), (''tag'', None)])
               :: unit filter_query) ''rank'' = Some (NumEq (Fin 0))
   \<and> map_of (processFilters (Some [(''title'', Some ''''), (''rank'', Some ''  ''), (''tag'', None)])
               :: unit filter_query) ''tag'' = None"
  using processFilters_blank_value
          [of "[(''title'', Some ''''), (''rank'', Some ''  ''), (''tag'', None)]"
              "''title''" "''''" "''tag''", where ?'a = unit]
        processFilters_blank_value
          [of "[(''title'', Some ''''), (''rank'', Some ''  ''), (''tag'', None)]"
              "''rank''" "''  ''" "''tag''", where ?'a = unit]
  by (simp add: StrWhiteSpaceChar_def)

section \<open>The date-range filter builder\<close>

lemma new_Date_next_day:
  "\<bar>real_of_int t + 86400000\<bar> \<le> 8640000000000000 \<Longrightarrow>
     new_Date (js_add (Fin (real_of_int t)) (Fin (24 * 60 * 60 * 1000)))
       = Date (Fin (real_of_int (t + 86400000)))"
proof -
  assume a: "\<bar>real_of_int t + 86400000\<bar> \<le> 8640000000000000"
  have e: "real_of_int t + 86400000 = real_of_int (t + 86400000)" by simp
  show ?thesis
    using a unfolding new_Date_def
    by (simp del: of_int_add add: e)
qed

lemma createDateFilter_shape:
  "(createDateFilter parse startDate endDate between :: 'a filter_query) = []
   \<or> (\<exists>ops. (createDateFilter parse startDate endDate between :: 'a filter_query)
              = [(''createdAt'', DateOps ops)])"
  by (cases startDate; cases endDate)
     (simp_all add: createDateFilter_def createdAt_of_def Let_def)

lemma distinct_createDateFilter:
  "distinct (map fst (createDateFilter parse startDate endDate between :: 'a filter_query))"
  using createDateFilter_shape [of parse startDate endDate between, where ?'a = 'a] by auto

text \<open>
  Claim C4. The date-range filter builder: with neither date given (absent or empty), the
  condition is empty; with only \<open>endDate\<close>, the bound on \<open>createdAt\<close> is \<open>$lt\<close> the parsed
  end date in exclusive mode and \<open>$lte\<close> the parsed end date plus 24 hours in inclusive
  mode; with only \<open>startDate\<close>, the bound is \<open>$gt\<close> (exclusive) or \<open>$gte\<close> (inclusive) the
  parsed start date; with both, the two bounds sit together in the one condition on
  \<open>createdAt\<close>. For a parsed end date \<open>t\<close> with \<open>t + 24h\<close> in the range of time values,
  the inclusive bound is the date \<open>t + 86400000\<close> ms.
\<close>

theorem createDateFilter_cases:
  "(\<not> truthy startDate \<and> \<not> truthy endDate \<longrightarrow>
      (createDateFilter parse startDate endDate between :: 'a filter_query) = [])
   \<and> (\<not> truthy startDate \<and> endDate = Some e \<and> e \<noteq> [] \<longrightarrow>
      (createDateFilter parse startDate endDate between :: 'a filter_query) =
        [(''createdAt'',
          DateOps [if between then (''$lt'', Date (parse e))
                   else (''$lte'', new_Date (js_add (parse e) (Fin 86400000)))])])
   \<and> (startDate = Some s \<and> s \<noteq> [] \<and> \<not> truthy endDate \<longrightarrow>
      (createDateFilter parse startDate endDate between :: 'a filter_query) =
        [(''createdAt'',
          DateOps [if between then (''$gt'', Date (parse s)) else (''$gte'', Date (parse s))])])
   \<and> (startDate = Some s \<and> s \<noteq> [] \<and> endDate = Some e \<and> e \<noteq> [] \<longrightarrow>
      (createDateFilter parse startDate endDate between :: 'a filter_query) =
        [(''createdAt'',
          DateOps [if between then (''$lt'', Date (parse e))
                   else (''$lte'', new_Date (js_add (parse e) (Fin 86400000))),
                   if between then (''$gt'', Date (parse s)) else (''$gte'', Date (parse s))])])
   \<and> (\<forall>t. parse e = Fin (real_of_int t) \<and> \<bar>real_of_int t + 86400000\<bar> \<le> 8640000000000000 \<longrightarrow>
          new_Date (js_add (parse e) (Fin 86400000)) = Date (Fin (real_of_int t + 86400000)))"
proof (intro conjI impI allI)
  assume "\<not> truthy startDate \<and> \<not> truthy endDate"
  then show "(createDateFilter parse startDate endDate between :: 'a filter_query) = []"
    by (simp add: createDateFilter_def)
next
  assume "\<not> truthy startDate \<and> endDate = Some e \<and> e \<noteq> []"
  then show "(createDateFilter parse startDate endDate between :: 'a filter_query) =
        [(''createdAt'',
          DateOps [if between then (''$lt'', Date (parse e))
                   else (''$lte'', new_Date (js_add (parse e) (Fin 86400000)))])]"
    by (cases startDate) (simp_all add: createDateFilter_def createdAt_of_def)
next
  assume "startDate = Some s \<and> s \<noteq> [] \<and> \<not> truthy endDate"
  then show "(createDateFilter parse startDate endDate between :: 'a filter_query) =
        [(''createdAt'',
          DateOps [if between then (''$gt'', Date (parse s)) else (''$gte'', Date (parse s))])]"
    by (cases endDate) (simp_all add: createDateFilter_def createdAt_of_def)
next
  assume "startDate = Some s \<and> s \<noteq> [] \<and> endDate = Some e \<and> e \<noteq> []"
  then show "(createDateFilter parse startDate endDate between :: 'a filter_query) =
        [(''createdAt'',
          DateOps [if between then (''$lt'', Date (parse e))
                   else (''$lte'', new_Date (js_add (parse e) (Fin 86400000))),
                   if between then (''$gt'', Date (parse s)) else (''$gte'', Date (parse s))])]"
    by (simp add: createDateFilter_def createdAt_of_def)
next
  fix t
  assume "parse e = Fin (real_of_int t) \<and> \<bar>real_of_int t + 86400000\<bar> \<le> 8640000000000000"
  then show "new_Date (js_add (parse e) (Fin 86400000)) = Date (Fin (real_of_int t + 86400000))"
    using new_Date_next_day [of t] by simp
qed

theorem createDateFilter_cases_witness:
  "(createDateFilter iso_dates None None False :: unit filter_query) = []
   \<and> (createDateFilter iso_dates None (Some ''2024-01-20'') True :: unit filter_query)
       = [(''createdAt'', DateOps [(''$lt'', Date (Fin 1705708800000))])]
   \<and> (createDateFilter iso_dates (Some ''2024-01-15'') None False :: unit filter_query)
       = [(''createdAt'', DateOps [(''$gte'', Date (Fin 1705276800000))])]
   \<and> (createDateFilter iso_dates (Some ''2024-01-15'') (Some ''2024-01-20'') False
         :: unit filter_query)
       = [(''createdAt'', DateOps [(''$lte'', Date (Fin 1705795200000)),
                                   (''$gte'', Date (Fin 1705276800000))])]"
  using createDateFilter_cases [of None None iso_dates False "''2024-01-20''" "''2024-01-15''", where ?'a = unit]
        createDateFilter_cases [of None "Some ''2024-01-20''" iso_dates True "''2024-01-20''" "''2024-01-15''", where ?'a = unit]
        createDateFilter_cases [of "Some ''2024-01-15''" None iso_dates False "''2024-01-20''" "''2024-01-15''", where ?'a = unit]
        createDateFilter_cases [of "Some ''2024-01-15''" "Some ''2024-01-20''" iso_dates False "''2024-01-20''" "''2024-01-15''", where ?'a = unit]
  by (simp add: iso_dates_def)

section \<open>The global search query builder and the combined filter\<close>

lemma fold_invariant:
  assumes "\<And>x q. P q \<Longrightarrow> P (step x q)" and "P q0"
  shows "P (fold step fs q0)"
  using assms(2) by (induction fs arbitrary: q0) (simp_all add: assms(1))

lemma distinct_processFilters: "distinct (map fst (processFilters filters))"
proof (cases filters)
  case None
  then show ?thesis by (simp add: processFilters_def)
next
  case (Some fs)
  show ?thesis
    unfolding processFilters_def Some option.case
    by (rule fold_invariant) (auto simp: distinct_update split: option.splits)
qed

lemma distinct_createGlobalSearchQuery:
  "distinct (map fst (createGlobalSearchQuery filters))"
  by (cases filters) (simp_all add: createGlobalSearchQuery_def Let_def)

lemma global_conditions_comprehension:
  "List.map_filter global_condition fs
     = [[(k, RegexMatch v ''i'')]. (k, Some v) \<leftarrow> fs, v \<noteq> []]"
  by (induction fs)
     (auto simp: map_filter_simps global_condition_def split: option.splits)

lemma map_of_createGlobalSearchQuery_other:
  "key \<noteq> ''$or'' \<Longrightarrow> map_of (createGlobalSearchQuery filters) key = None"
  by (cases filters) (simp_all add: createGlobalSearchQuery_def Let_def)

text \<open>
  Claim C6. With global search requested, the global search query builder yields one
  \<open>$or\<close> condition holding one case-insensitive pattern per entry whose value is a
  non-empty string, in the order of the entries, and the empty condition when no entry
  qualifies; the combined filter is the base filter, the date-range condition and this
  condition, so the field filter processor contributes nothing: every key other than
  \<open>$or\<close> reads as in the base filter overlaid with the date-range condition.
\<close>

theorem global_search_replaces_field_filters:
  fixes options :: "('a, 's) PaginationOptions"
  assumes "opt_globalSearch options = Some True"
  shows "(createGlobalSearchQuery (opt_filters options) :: 'a filter_query) =
           (case opt_filters options of
              None \<Rightarrow> []
            | Some fs \<Rightarrow>
                if [e \<leftarrow> fs. truthy (snd e)] = [] then []
                else [(''$or'', OrOf [[(k, RegexMatch v ''i'')]. (k, Some v) \<leftarrow> fs, v \<noteq> []])])
         \<and> combinedFilter parse options =
             spread
               (spread (spread [] (default_to [] (opt_filter options)))
                  (createDateFilter parse (opt_startDate options) (opt_endDate options)
                     (default_to False (opt_searchBetweenDates options))))
               (createGlobalSearchQuery (opt_filters options))
         \<and> (\<forall>key. key \<noteq> ''$or'' \<longrightarrow>
               map_of (combinedFilter parse options) key =
               map_of (spread (spread [] (default_to [] (opt_filter options)))
                         (createDateFilter parse (opt_startDate options) (opt_endDate options)
                            (default_to False (opt_searchBetweenDates options)))) key)"
proof (intro conjI allI impI)
  have none: "(List.map_filter global_condition fs :: 'a filter_query list) = []
                \<longleftrightarrow> (\<forall>e\<in>set fs. \<not> truthy (snd e))"
    for fs :: field_filters
    by (induction fs)
       (auto simp: map_filter_simps global_condition_def split: option.splits)
  show "(createGlobalSearchQuery (opt_filters options) :: 'a filter_query) =
           (case opt_filters options of
              None \<Rightarrow> []
            | Some fs \<Rightarrow>
                if [e \<leftarrow> fs. truthy (snd e)] = [] then []
                else [(''$or'', OrOf [[(k, RegexMatch v ''i'')]. (k, Some v) \<leftarrow> fs, v \<noteq> []])])"
    by (cases "opt_filters options")
       (auto simp: createGlobalSearchQuery_def Let_def none filter_empty_conv
                   global_conditions_comprehension [symmetric])
  show cf: "combinedFilter parse options =
             spread
               (spread (spread [] (default_to [] (opt_filter options)))
                  (createDateFilter parse (opt_startDate options) (opt_endDate options)
                     (default_to False (opt_searchBetweenDates options))))
               (createGlobalSearchQuery (opt_filters options))"
    using assms by (simp add: combinedFilter_def)
  fix key :: string
  assume "key \<noteq> ''$or''"
  then show "map_of (combinedFilter parse options) key =
               map_of (spread (spread [] (default_to [] (opt_filter options)))
                         (createDateFilter parse (opt_startDate options) (opt_endDate options)
                            (default_to False (opt_searchBetweenDates options)))) key"
    unfolding cf
    by (simp add: map_of_spread distinct_createGlobalSearchQuery
                  map_of_createGlobalSearchQuery_other map_add_def)
qed

theorem global_search_replaces_field_filters_witness:
  "opt_globalSearch
     (no_options\<lparr>opt_filter := Some [(''owner'', Opaque ())],
                 opt_filters := Some [(''title'', Some ''meeting''), (''description'', Some ''''),
                                      (''tag'', None)],
                 opt_globalSearch := Some True\<rparr> :: (unit, unit) PaginationOptions) = Some True
   \<and> combinedFilter iso_dates
         (no_options\<lparr>opt_filter := Some [(''owner'', Opaque ())],
                     opt_filters := Some [(''title'', Some ''meeting''), (''description'', Some ''''),
                                          (''tag'', None)],
                     opt_globalSearch := Some True\<rparr> :: (unit, unit) PaginationOptions)
       = [(''owner'', Opaque ()), (''$or'', OrOf [[(''title'', RegexMatch ''meeting'' ''i'')]])]"
  using global_search_replaces_field_filters
          [of "no_options\<lparr>opt_filter := Some [(''owner'', Opaque ())],
                 opt_filters := Some [(''title'', Some ''meeting''), (''description'', Some ''''),
                                      (''tag'', None)],
                 opt_globalSearch := Some True\<rparr> :: (unit, unit) PaginationOptions" iso_dates]
  by (simp add: no_options_def spread_def createDateFilter_def)

lemma js_Number_x: "js_Number ''x'' = NaN"
  by code_simp

text \<open>
  Claim C9. The combined filter is a last-wins merge by key: a key reads the field-filter
  (or global-search) condition if there is one, otherwise the date-range condition if there
  is one, otherwise the caller's base filter. In particular, in non-global mode a field
  filter named \<open>createdAt\<close> takes the place of the date-range condition.
\<close>

theorem combinedFilter_last_wins:
  fixes options :: "('a, 's) PaginationOptions"
  assumes "distinct (map fst (default_to [] (opt_filter options)))"
  shows "map_of (combinedFilter parse options) key =
           (case map_of (if default_to False (opt_globalSearch options)
                         then createGlobalSearchQuery (opt_filters options)
                         else processFilters (opt_filters options)) key of
              Some c \<Rightarrow> Some c
            | None \<Rightarrow>
                (case map_of (createDateFilter parse (opt_startDate options) (opt_endDate options)
                               (default_to False (opt_searchBetweenDates options))) key of
                   Some c \<Rightarrow> Some c
                 | None \<Rightarrow> map_of (default_to [] (opt_filter options)) key))
         \<and> (opt_filters options = Some fs \<and> distinct (map fst fs)
              \<and> (''createdAt'', Some v) \<in> set fs \<and> \<not> default_to False (opt_globalSearch options)
            \<longrightarrow> map_of (combinedFilter parse options) ''createdAt'' =
                  Some (if v = ''true'' then BoolEq True
                        else if v = ''false'' then BoolEq False
                        else if js_Number v \<noteq> NaN then NumEq (js_Number v)
                        else RegexMatch v ''i''))"
proof -
  let ?field = "(if default_to False (opt_globalSearch options)
                 then createGlobalSearchQuery (opt_filters options)
                 else processFilters (opt_filters options)) :: 'a filter_query"
  let ?date = "createDateFilter parse (opt_startDate options) (opt_endDate options)
                 (default_to False (opt_searchBetweenDates options)) :: 'a filter_query"
  let ?base = "default_to [] (opt_filter options)"
  have dfield: "distinct (map fst ?field)"
    by (simp add: distinct_processFilters distinct_createGlobalSearchQuery)
  have cf: "combinedFilter parse options = spread (spread (spread [] ?base) ?date) ?field"
    by (simp add: combinedFilter_def)
  have look: "map_of (combinedFilter parse options) key =
           (case map_of ?field key of
              Some c \<Rightarrow> Some c
            | None \<Rightarrow> (case map_of ?date key of Some c \<Rightarrow> Some c | None \<Rightarrow> map_of ?base key))"
    for key
    unfolding cf
    by (simp only: map_of_spread [OF dfield] map_of_spread [OF distinct_createDateFilter]
                   map_of_spread [OF assms])
       (simp add: map_add_def split: option.splits)
  show ?thesis
  proof (intro conjI impI)
    show "map_of (combinedFilter parse options) key =
           (case map_of ?field key of
              Some c \<Rightarrow> Some c
            | None \<Rightarrow> (case map_of ?date key of Some c \<Rightarrow> Some c | None \<Rightarrow> map_of ?base key))"
      by (rule look)
  next
    assume a: "opt_filters options = Some fs \<and> distinct (map fst fs)
              \<and> (''createdAt'', Some v) \<in> set fs \<and> \<not> default_to False (opt_globalSearch options)"
    then have "map_of (processFilters (Some fs) :: 'a filter_query) ''createdAt'' =
                 Some (if v = ''true'' \<or> v = ''false'' then BoolEq (v = ''true'')
                       else if \<not> js_isNaN (js_Number v) then NumEq (js_Number v)
                       else RegexMatch v ''i'')"
      using processFilters_lookup [of fs "''createdAt''" "Some v", where ?'a = 'a] by simp
    with a show "map_of (combinedFilter parse options) ''createdAt'' =
                  Some (if v = ''true'' then BoolEq True
                        else if v = ''false'' then BoolEq False
                        else if js_Number v \<noteq> NaN then NumEq (js_Number v)
                        else RegexMatch v ''i'')"
      by (simp add: look js_isNaN_def)
  qed
qed

theorem combinedFilter_last_wins_witness:
  "distinct (map fst (default_to []
      (opt_filter (no_options\<lparr>opt_filter := Some [(''createdAt'', Opaque ()), (''owner'', Opaque ())],
                 opt_startDate := Some ''2024-01-15'',
                 opt_filters := Some [(''createdAt'', Some ''x'')]\<rparr>
                  :: (unit, unit) PaginationOptions))))
   \<and> map_of (combinedFilter iso_dates
         (no_options\<lparr>opt_filter := Some [(''createdAt'', Opaque ()), (''owner'', Opaque ())],
                 opt_startDate := Some ''2024-01-15'',
                 opt_filters := Some [(''createdAt'', Some ''x'')]\<rparr>
                  :: (unit, unit) PaginationOptions)) ''createdAt''
       = Some (RegexMatch ''x'' ''i'')
   \<and> map_of (combinedFilter iso_dates
         (no_options\<lparr>opt_filter := Some [(''createdAt'', Opaque ()), (''owner'', Opaque ())],
                 opt_startDate := Some ''2024-01-15''\<rparr>
                  :: (unit, unit) PaginationOptions)) ''createdAt''
       = Some (DateOps [(''$gte'', Date (Fin 1705276800000))])
   \<and> map_of (combinedFilter iso_dates
         (no_options\<lparr>opt_filter := Some [(''createdAt'', Opaque ()), (''owner'', Opaque ())],
                 opt_startDate := Some ''2024-01-15''\<rparr>
                  :: (unit, unit) PaginationOptions)) ''owner''
       = Some (Opaque ())"
  using combinedFilter_last_wins
          [where options = "no_options\<lparr>opt_filter := Some [(''createdAt'', Opaque ()), (''owner'', Opaque ())],
                 opt_startDate := Some ''2024-01-15'',
                 opt_filters := Some [(''createdAt'', Some ''x'')]\<rparr>
                  :: (unit, unit) PaginationOptions"
             and fs = "[(''createdAt'', Some ''x'')]" and v = "''x''" and parse = iso_dates
             and key = "''createdAt''"]
        combinedFilter_last_wins
          [where options = "no_options\<lparr>opt_filter := Some [(''createdAt'', Opaque ()), (''owner'', Opaque ())],
                 opt_startDate := Some ''2024-01-15''\<rparr>
                  :: (unit, unit) PaginationOptions"
             and fs = "[]" and v = "''x''" and parse = iso_dates and key = "''createdAt''"]
        combinedFilter_last_wins
          [where options = "no_options\<lparr>opt_filter := Some [(''createdAt'', Opaque ()), (''owner'', Opaque ())],
                 opt_startDate := Some ''2024-01-15''\<rparr>
                  :: (unit, unit) PaginationOptions"
             and fs = "[]" and v = "''x''" and parse = iso_dates and key = "''owner''"]
  by (simp add: no_options_def js_Number_x js_isNaN_def processFilters_def createDateFilter_def
                createdAt_of_def iso_dates_def)

section \<open>The aggregation request\<close>

text \<open>
  Claim C7. Every call sends one request, built in this order: a match stage with the
  combined filter; the caller's extra stages, as given; a facet stage whose \<open>metadata\<close>
  sub-pipeline is the count alone (whatever skip, limit and projection are) and whose
  \<open>data\<close> sub-pipeline is a sort by \<open>createdAt\<close> descending (only when \<open>sort\<close> is on, the
  default), then skip, then limit to \<open>max\<close>, then a projection (only when \<open>extract\<close> has
  a key); last, the unwind of \<open>$metadata\<close>.
\<close>

theorem aggregationPipeline_order:
  fixes options :: "('a, 's) PaginationOptions"
  shows "fst (mongoosePagination Model_aggregate parse options)
           = [aggregationPipeline parse options]
         \<and> length (aggregationPipeline parse options)
             = length (default_to [] (opt_pipeline options)) + 3
         \<and> aggregationPipeline parse options ! 0 = Match (combinedFilter parse options)
         \<and> (\<forall>i < length (default_to [] (opt_pipeline options)).
               aggregationPipeline parse options ! (i + 1)
                 = Extra (default_to [] (opt_pipeline options) ! i))
         \<and> aggregationPipeline parse options ! (length (default_to [] (opt_pipeline options)) + 1)
             = Facet
                 [(''metadata'', [Count ''total'']),
                  (''data'',
                     (if default_to True (opt_sort options)
                      then [Sort [(''createdAt'', - 1)]] else [])
                     @ [Skip (skip_of options), Limit (max_of options)]
                     @ (if default_to [] (opt_extract options) \<noteq> []
                        then [Project (default_to [] (opt_extract options))] else []))]
         \<and> aggregationPipeline parse options ! (length (default_to [] (opt_pipeline options)) + 2)
             = Unwind ''$metadata'' True"
proof -
  let ?extras = "default_to [] (opt_pipeline options)"
  let ?facet = "Facet
                 [(''metadata'', [Count ''total'']),
                  (''data'',
                     (if default_to True (opt_sort options)
                      then [Sort [(''createdAt'', - 1)]] else [])
                     @ [Skip (skip_of options), Limit (max_of options)]
                     @ (if default_to [] (opt_extract options) \<noteq> []
                        then [Project (default_to [] (opt_extract options))] else []))]
                :: ('a, 's) stage"
  have pl: "aggregationPipeline parse options =
              Match (combinedFilter parse options) # map Extra ?extras
              @ [?facet, Unwind ''$metadata'' True]"
    by (simp add: aggregationPipeline_def Let_def)
  have sent: "fst (mongoosePagination Model_aggregate parse options)
                = [aggregationPipeline parse options]"
    by (simp add: mongoosePagination_def Let_def)
  have len: "length (aggregationPipeline parse options) = length ?extras + 3"
    unfolding pl by simp
  have first: "aggregationPipeline parse options ! 0 = Match (combinedFilter parse options)"
    unfolding pl by simp
  have mid: "aggregationPipeline parse options ! (i + 1) = Extra (?extras ! i)"
    if "i < length ?extras" for i
    unfolding pl using that by (simp add: nth_append)
  have facet: "aggregationPipeline parse options ! (length ?extras + 1) = ?facet"
    unfolding pl by (simp add: nth_append)
  have unwind: "aggregationPipeline parse options ! (length ?extras + 2)
                  = Unwind ''$metadata'' True"
    unfolding pl by (simp add: nth_append)
  from sent len first mid facet unwind show ?thesis by blast
qed

theorem aggregationPipeline_order_witness:
  "aggregationPipeline iso_dates
     (no_options\<lparr>opt_max := Some (Fin 5), opt_page := Some (Fin 2),
                 opt_pipeline := Some [''$lookup'', ''$addFields''],
                 opt_extract := Some [(''title'', True), (''completed'', True)]\<rparr>
        :: (unit, string) PaginationOptions) ! 1 = Extra ''$lookup''
   \<and> aggregationPipeline iso_dates
     (no_options\<lparr>opt_max := Some (Fin 5), opt_page := Some (Fin 2),
                 opt_pipeline := Some [''$lookup'', ''$addFields''],
                 opt_extract := Some [(''title'', True), (''completed'', True)]\<rparr>
        :: (unit, string) PaginationOptions) ! 2 = Extra ''$addFields''
   \<and> aggregationPipeline iso_dates
     (no_options\<lparr>opt_max := Some (Fin 5), opt_page := Some (Fin 2),
                 opt_pipeline := Some [''$lookup'', ''$addFields''],
                 opt_extract := Some [(''title'', True), (''completed'', True)]\<rparr>
        :: (unit, string) PaginationOptions) ! 3
       = Facet [(''metadata'', [Count ''total'']),
                (''data'', [Sort [(''createdAt'', - 1)], Skip (Fin 5), Limit (Fin 5),
                            Project [(''title'', True), (''completed'', True)]])]
   \<and> aggregationPipeline iso_dates
     (no_options\<lparr>opt_max := Some (Fin 5), opt_page := Some (Fin 2),
                 opt_pipeline := Some [''$lookup'', ''$addFields''],
                 opt_extract := Some [(''title'', True), (''completed'', True)]\<rparr>
        :: (unit, string) PaginationOptions) ! 4 = Unwind ''$metadata'' True"
proof -
  let ?opts = "no_options\<lparr>opt_max := Some (Fin 5), opt_page := Some (Fin 2),
                 opt_pipeline := Some [''$lookup'', ''$addFields''],
                 opt_extract := Some [(''title'', True), (''completed'', True)]\<rparr>
        :: (unit, string) PaginationOptions"
  note c = aggregationPipeline_order
             [where options = ?opts and parse = iso_dates
                and Model_aggregate = "list_storage thirteen_tasks"]
  note mid = c [THEN conjunct2, THEN conjunct2, THEN conjunct2, THEN conjunct1, rule_format]
  note facet = c [THEN conjunct2, THEN conjunct2, THEN conjunct2, THEN conjunct2, THEN conjunct1]
  note unwind = c [THEN conjunct2, THEN conjunct2, THEN conjunct2, THEN conjunct2, THEN conjunct2]
  have e: "default_to [] (opt_pipeline ?opts) = [''$lookup'', ''$addFields'']"
    by (simp add: no_options_def)
  from mid [of 0] mid [of 1]
  have "aggregationPipeline iso_dates ?opts ! 1 = Extra ''$lookup''"
    and "aggregationPipeline iso_dates ?opts ! 2 = Extra ''$addFields''"
    by (simp_all add: e eval_nat_numeral)
  moreover from facet have "aggregationPipeline iso_dates ?opts ! 3
       = Facet [(''metadata'', [Count ''total'']),
                (''data'', [Sort [(''createdAt'', - 1)], Skip (Fin 5), Limit (Fin 5),
                            Project [(''title'', True), (''completed'', True)]])]"
    by (simp add: no_options_def eval_nat_numeral skip_of_def page_of_def max_of_def js_sub_def)
  moreover from unwind have "aggregationPipeline iso_dates ?opts ! 4 = Unwind ''$metadata'' True"
    by (simp add: e eval_nat_numeral)
  ultimately show ?thesis by simp
qed

lemma facet_data_pipeline:
  "facet_data (aggregationPipeline parse options) =
     Some ((if default_to True (opt_sort options) then [Sort [(''createdAt'', - 1)]] else [])
           @ [Skip (skip_of options), Limit (max_of options)]
           @ (if length (default_to [] (opt_extract options)) > 0
              then [Project (default_to [] (opt_extract options))] else []))"
proof -
  have skip_extra: "facet_data (map Extra xs @ rest) = facet_data rest"
    for xs :: "'b list" and rest :: "('a, 'b) stage list"
    by (induction xs) simp_all
  show ?thesis
    by (simp add: aggregationPipeline_def Let_def skip_extra)
qed

lemma request_limit_pipeline:
  "request_limit (aggregationPipeline parse options) = Some (max_of options)"
  by (simp add: request_limit_def facet_data_pipeline)

lemma request_skip_pipeline:
  "request_skip (aggregationPipeline parse options) = Some (skip_of options)"
  by (simp add: request_skip_def facet_data_pipeline)



lemma list_storage_answer:
  fixes options :: "('a, 's) PaginationOptions"
  assumes "skip_of options = Fin (real i)" and "max_of options = Fin (real n)" and "0 < n"
  shows "(list_storage docs (aggregationPipeline parse options)
            :: string + 'd facet_result list) =
         Inr [\<lparr>res_metadata = (if docs = [] then None else Some (Fin (real (length docs)))),
               res_data = take n (drop i docs)\<rparr>]"
  using assms
  by (simp add: list_storage_def request_skip_pipeline request_limit_pipeline as_nat_def)

lemma last_aggregationPipeline:
  "last (aggregationPipeline parse options) = Unwind ''$metadata'' True"
  by (simp add: aggregationPipeline_def Let_def)

lemma ceil_zero_div: "x \<noteq> NaN \<Longrightarrow> x \<noteq> Fin 0 \<Longrightarrow> js_ceil (js_div (Fin 0) x) = Fin 0"
  by (cases x) simp_all

section \<open>The page and its metadata\<close>







text \<open>
  Claim C8. When the storage finds no match (its answer has no count and no records, or
  is empty), the call succeeds with a whole page: total 0, 0 pages, page and max as asked,
  no records; and the request's last stage unwinds \<open>$metadata\<close> with
  \<open>preserveNullAndEmptyArrays\<close>, so a missing count does not drop the answer. (For any
  \<open>max\<close> but \<open>0\<close> and NaN.)
\<close>

theorem zero_matches_page:
  fixes options :: "('a, 's) PaginationOptions"
  assumes "Model_aggregate (aggregationPipeline parse options) = Inr rs"
    and "rs = [] \<or> (\<exists>r rest. rs = r # rest \<and> res_metadata r = None \<and> res_data r = [])"
    and "max_of options \<noteq> NaN" and "max_of options \<noteq> Fin 0"
  shows "\<exists>res. snd (mongoosePagination Model_aggregate parse options) = Inr res
               \<and> md_total (metadata res) = Fin 0
               \<and> md_totalPages (metadata res) = Fin 0
               \<and> md_page (metadata res) = page_of options
               \<and> md_max (metadata res) = max_of options
               \<and> data res = []
               \<and> last (aggregationPipeline parse options) = Unwind ''$metadata'' True"
  using assms(2)
proof
  assume "rs = []"
  with assms(1,3,4) show ?thesis
    by (simp add: mongoosePagination_def Let_def ceil_zero_div last_aggregationPipeline)
next
  assume "\<exists>r rest. rs = r # rest \<and> res_metadata r = None \<and> res_data r = []"
  then obtain r rest where "rs = r # rest" and "res_metadata r = None" and "res_data r = []"
    by blast
  with assms(1,3,4) show ?thesis
    by (simp add: mongoosePagination_def Let_def ceil_zero_div last_aggregationPipeline)
qed

theorem zero_matches_page_witness:
  "\<exists>res. snd (mongoosePagination (list_storage ([] :: nat list)) iso_dates
                (no_options\<lparr>opt_filter := Some [(''title'', Opaque ''NonexistentTask'')]\<rparr>
                   :: (string, unit) PaginationOptions)) = Inr res
         \<and> md_total (metadata res) = Fin 0
         \<and> md_totalPages (metadata res) = Fin 0
         \<and> md_page (metadata res) = Fin 1
         \<and> md_max (metadata res) = Fin 10
         \<and> data res = []"
proof -
  let ?opts = "no_options\<lparr>opt_filter := Some [(''title'', Opaque ''NonexistentTask'')]\<rparr>
                 :: (string, unit) PaginationOptions"
  let ?M = "list_storage ([] :: nat list) :: (string, unit, nat, string) aggregate"
  have m: "max_of ?opts = Fin (real 10)"
    by (simp add: max_of_def no_options_def)
  have p: "page_of ?opts = Fin 1"
    by (simp add: page_of_def no_options_def)
  have s: "skip_of ?opts = Fin (real 0)"
    by (simp add: skip_of_def page_of_def max_of_def no_options_def js_sub_def)
  have answer: "?M (aggregationPipeline iso_dates ?opts) =
                  Inr [\<lparr>res_metadata = None, res_data = []\<rparr>]"
    using list_storage_answer [OF s m, of "[] :: nat list" iso_dates] by simp
  have "[\<lparr>res_metadata = None, res_data = ([] :: nat list)\<rparr>] = []
        \<or> (\<exists>r rest. [\<lparr>res_metadata = None, res_data = ([] :: nat list)\<rparr>] = r # rest
                     \<and> res_metadata r = None \<and> res_data r = [])"
    by simp
  from zero_matches_page [where Model_aggregate = ?M and parse = iso_dates and options = ?opts,
         OF answer this] m p show ?thesis by auto
qed

text \<open>
  Claim C1, which the code does not meet. The claim: a \<open>page\<close> or \<open>max\<close> that is not a
  positive integer is rejected with an invalid-page or invalid-max error before the
  storage is touched. The function has no such check. With \<open>page = 0\<close> it sends a request
  with \<open>$skip = -10\<close>, with \<open>page = NaN\<close> one with \<open>$skip = NaN\<close>, with \<open>max = 0\<close> one
  with \<open>$limit = 0\<close>; whatever the storage does, the outcome is never \<open>ErrorInvalidPage\<close>
  or \<open>ErrorInvalidMax\<close>; a storage that rejects such arguments makes the call fail with
  the storage's own error.
\<close>

theorem invalid_page_and_max_reach_storage:
  fixes Model_aggregate :: "('a, 's, 'd, 'e) aggregate" and docs :: "'d list"
  shows
  "fst (mongoosePagination Model_aggregate parse (no_options\<lparr>opt_page := Some (Fin 0)\<rparr> :: ('a, 's) PaginationOptions))
     = [aggregationPipeline parse (no_options\<lparr>opt_page := Some (Fin 0)\<rparr> :: ('a, 's) PaginationOptions)]
   \<and> request_skip (aggregationPipeline parse (no_options\<lparr>opt_page := Some (Fin 0)\<rparr> :: ('a, 's) PaginationOptions))
       = Some (Fin (- 10))
   \<and> snd (mongoosePagination Model_aggregate parse (no_options\<lparr>opt_page := Some (Fin 0)\<rparr> :: ('a, 's) PaginationOptions))
       \<noteq> Inl ErrorInvalidPage
   \<and> snd (mongoosePagination (list_storage docs) parse (no_options\<lparr>opt_page := Some (Fin 0)\<rparr> :: ('a, 's) PaginationOptions))
       = Inl (QueryFailure ''invalid argument to $skip or $limit'')
   \<and> request_skip (aggregationPipeline parse (no_options\<lparr>opt_page := Some NaN\<rparr> :: ('a, 's) PaginationOptions))
       = Some NaN
   \<and> snd (mongoosePagination Model_aggregate parse (no_options\<lparr>opt_page := Some NaN\<rparr> :: ('a, 's) PaginationOptions))
       \<noteq> Inl ErrorInvalidPage
   \<and> fst (mongoosePagination Model_aggregate parse (no_options\<lparr>opt_max := Some (Fin 0)\<rparr> :: ('a, 's) PaginationOptions))
     = [aggregationPipeline parse (no_options\<lparr>opt_max := Some (Fin 0)\<rparr> :: ('a, 's) PaginationOptions)]
   \<and> request_limit (aggregationPipeline parse (no_options\<lparr>opt_max := Some (Fin 0)\<rparr> :: ('a, 's) PaginationOptions))
       = Some (Fin 0)
   \<and> snd (mongoosePagination Model_aggregate parse (no_options\<lparr>opt_max := Some (Fin 0)\<rparr> :: ('a, 's) PaginationOptions))
       \<noteq> Inl ErrorInvalidMax
   \<and> snd (mongoosePagination (list_storage docs) parse (no_options\<lparr>opt_max := Some (Fin 0)\<rparr> :: ('a, 's) PaginationOptions))
       = Inl (QueryFailure ''the limit must be positive'')"
proof -
  have never: "snd (mongoosePagination Model_aggregate parse options) \<noteq> Inl ErrorInvalidPage
               \<and> snd (mongoosePagination Model_aggregate parse options) \<noteq> Inl ErrorInvalidMax"
    for options :: "('a, 's) PaginationOptions"
    by (cases "Model_aggregate (aggregationPipeline parse options)")
       (simp_all add: mongoosePagination_def Let_def)
  have sent: "fst (mongoosePagination Model_aggregate parse options)
                = [aggregationPipeline parse options]"
    for options :: "('a, 's) PaginationOptions"
    by (simp add: mongoosePagination_def Let_def)
  have s0: "skip_of (no_options\<lparr>opt_page := Some (Fin 0)\<rparr> :: ('a, 's) PaginationOptions)
              = Fin (- 10)"
    by (simp add: skip_of_def page_of_def max_of_def no_options_def js_sub_def)
  have sn: "skip_of (no_options\<lparr>opt_page := Some NaN\<rparr> :: ('a, 's) PaginationOptions) = NaN"
    by (simp add: skip_of_def page_of_def max_of_def no_options_def js_sub_def)
  have m0: "max_of (no_options\<lparr>opt_max := Some (Fin 0)\<rparr> :: ('a, 's) PaginationOptions) = Fin 0"
    by (simp add: max_of_def no_options_def)
  have sm: "skip_of (no_options\<lparr>opt_max := Some (Fin 0)\<rparr> :: ('a, 's) PaginationOptions) = Fin 0"
    by (simp add: skip_of_def page_of_def max_of_def no_options_def js_sub_def)
  have r1: "snd (mongoosePagination (list_storage docs) parse
                   (no_options\<lparr>opt_page := Some (Fin 0)\<rparr> :: ('a, 's) PaginationOptions))
              = Inl (QueryFailure ''invalid argument to $skip or $limit'')"
    by (simp add: mongoosePagination_def Let_def list_storage_def request_skip_pipeline
                  request_limit_pipeline s0 as_nat_def)
  have r2: "snd (mongoosePagination (list_storage docs) parse
                   (no_options\<lparr>opt_max := Some (Fin 0)\<rparr> :: ('a, 's) PaginationOptions))
              = Inl (QueryFailure ''the limit must be positive'')"
    by (simp add: mongoosePagination_def Let_def list_storage_def request_skip_pipeline
                  request_limit_pipeline sm m0 as_nat_def)
  show ?thesis
    by (simp only: never sent request_skip_pipeline request_limit_pipeline s0 sn m0 r1 r2
                   not_False_eq_True simp_thms)
qed

end
